theory Spec2Isabelle
  imports Complex_Main "HOL-Library.Log_Nat"
begin

section \<open>GoodWe inverter numeric settings (number.py)\<close>

text \<open>
  A shallow embedding of \<^verbatim>\<open>custom_components/goodwe/number.py\<close>: the table
  \<^verbatim>\<open>NUMBERS\<close> of setting descriptors, the setup routine
  \<^verbatim>\<open>async_setup_entry\<close> and the entity class \<^verbatim>\<open>InverterNumberEntity\<close>.
  The inverter library and the host platform are outside the module; what the module
  observes of them (the outcome of a device method, the state write of the host) is made
  explicit as data.
\<close>

subsection \<open>Python values, floats and exceptions\<close>

text \<open>
  The exceptions that can reach the module. \<open>InverterError\<close> and \<open>ValueError\<close> stand
  for the class and its subclasses (what \<^verbatim>\<open>except (InverterError, ValueError)\<close>
  catches); \<open>OtherError\<close> is any exception class outside these.
\<close>

datatype exn =
    InverterError
  | ValueError
  | OverflowError
  | TypeError
  | AttributeError
  | OtherError string

text \<open>
  The values a device read hands to a mapper: \<^verbatim>\<open>None\<close>, an integer, or an object
  with named attributes (the library's eco-mode structure). A plain object defines neither
  \<^verbatim>\<open>__bool__\<close> nor \<^verbatim>\<open>__len__\<close>, so it is always truthy.
\<close>

datatype pyval =
    PyNone
  | PyInt int
  | PyObj "(string \<times> pyval) list"

text \<open>
  A Python \<^verbatim>\<open>float\<close>: a finite number or one of the three special values. The
  finite doubles are a subset of the reals, so a statement for every \<open>Finite r\<close> covers
  every finite double.
\<close>

datatype pyfloat =
    Finite real
  | PosInf
  | NegInf
  | NaN

fun truthy :: "pyval \<Rightarrow> bool" where
  "truthy PyNone = False"
| "truthy (PyInt n) = (n \<noteq> 0)"
| "truthy (PyObj attrs) = True"

text \<open>Attribute access \<^verbatim>\<open>v.name\<close>: only objects have the attributes read here.\<close>

fun py_getattr :: "pyval \<Rightarrow> string \<Rightarrow> exn + pyval" where
  "py_getattr (PyObj attrs) a =
     (case map_of attrs a of None \<Rightarrow> Inl AttributeError | Some v \<Rightarrow> Inr v)"
| "py_getattr PyNone a = Inl AttributeError"
| "py_getattr (PyInt n) a = Inl AttributeError"

text \<open>The builtin \<^verbatim>\<open>abs\<close>.\<close>

fun py_abs :: "pyval \<Rightarrow> exn + pyval" where
  "py_abs (PyInt n) = Inr (PyInt \<bar>n\<bar>)"
| "py_abs PyNone = Inl TypeError"
| "py_abs (PyObj attrs) = Inl TypeError"

text \<open>
  The builtin \<^verbatim>\<open>int\<close> on a float: truncation towards zero; \<^verbatim>\<open>int(nan)\<close>
  raises ValueError and \<^verbatim>\<open>int(inf)\<close> raises OverflowError.
\<close>

fun py_int :: "pyfloat \<Rightarrow> exn + int" where
  "py_int (Finite r) = Inr (if 0 \<le> r then \<lfloor>r\<rfloor> else \<lceil>r\<rceil>)"
| "py_int NaN = Inl ValueError"
| "py_int PosInf = Inl OverflowError"
| "py_int NegInf = Inl OverflowError"

text \<open>
  The builtin \<^verbatim>\<open>float\<close> on an integer: the nearest double (53 significant bits,
  ties to even), OverflowError when that is beyond the largest double.
\<close>

definition round_to_double :: "int \<Rightarrow> int" where
  "round_to_double n =
     (let m = \<bar>n\<bar>; k = nat (bitlen m - 53);
          q = m div 2 ^ k; r = m mod 2 ^ k;
          q' = (if 2 * r > 2 ^ k \<or> (2 * r = 2 ^ k \<and> odd q) then q + 1 else q)
      in sgn n * (q' * 2 ^ k))"

fun py_float :: "pyval \<Rightarrow> exn + pyfloat" where
  "py_float (PyInt n) =
     (if \<bar>round_to_double n\<bar> < 2 ^ 1024 then Inr (Finite (of_int (round_to_double n)))
      else Inl OverflowError)"
| "py_float PyNone = Inl TypeError"
| "py_float (PyObj attrs) = Inl TypeError"

subsection \<open>The device handle\<close>

text \<open>The methods of the inverter library that the descriptors call.\<close>

datatype call =
    Get_grid_export_limit
  | Set_grid_export_limit int
  | Get_ongrid_battery_dod
  | Set_ongrid_battery_dod int
  | Read_setting string

text \<open>
  The inverter object: the name of its class (\<^verbatim>\<open>type(inv).__name__\<close>), its serial
  number, and the behaviour of the external library: what a method call returns or raises,
  given the calls made before it.
\<close>

record Inverter =
  type_name :: string
  serial_number :: string
  respond :: "call list \<Rightarrow> call \<Rightarrow> exn + pyval"

text \<open>
  What the module does to the outside, in order: a device method awaited, and a state
  write to the host (\<^verbatim>\<open>async_write_ha_state\<close>), which publishes the entity's
  cached value at that moment.
\<close>

datatype event =
    Called call
  | StateWritten string pyfloat

fun calls_of :: "event list \<Rightarrow> call list" where
  "calls_of [] = []"
| "calls_of (Called c # tr) = c # calls_of tr"
| "calls_of (StateWritten u v # tr) = calls_of tr"

definition await_call :: "Inverter \<Rightarrow> call \<Rightarrow> event list \<Rightarrow> (exn + pyval) \<times> event list" where
  "await_call inverter c tr = (respond inverter (calls_of tr) c, tr @ [Called c])"

subsection \<open>Setting descriptors\<close>

datatype unit_of_measurement = WATT | PERCENTAGE
datatype number_device_class = POWER
datatype entity_category_t = CONFIG

record GoodweNumberEntityDescription =
  key :: string
  name :: string
  icon :: string
  entity_category :: entity_category_t
  device_class :: "number_device_class option"
  native_unit_of_measurement :: unit_of_measurement
  native_step :: int
  native_min_value :: int
  native_max_value :: int
  getter :: call
  mapper :: "pyval \<Rightarrow> exn + pyval"
  setter :: "(int \<Rightarrow> call) option"
  filter' :: "Inverter \<Rightarrow> bool"

text \<open>The five entries of \<^verbatim>\<open>NUMBERS\<close>, in the order of the source.\<close>

definition grid_export_limit_W :: GoodweNumberEntityDescription where
  "grid_export_limit_W = \<lparr>
     key = ''grid_export_limit'',
     name = ''Grid export limit'',
     icon = ''mdi:transmission-tower'',
     entity_category = CONFIG,
     device_class = Some POWER,
     native_unit_of_measurement = WATT,
     native_step = 100,
     native_min_value = 0,
     native_max_value = 10000,
     getter = Get_grid_export_limit,
     mapper = (\<lambda>v. Inr v),
     setter = Some (\<lambda>val. Set_grid_export_limit val),
     filter' = (\<lambda>inv. type_name inv \<noteq> ''DT'') \<rparr>"

definition grid_export_limit_pct :: GoodweNumberEntityDescription where
  "grid_export_limit_pct = \<lparr>
     key = ''grid_export_limit'',
     name = ''Grid export limit'',
     icon = ''mdi:transmission-tower'',
     entity_category = CONFIG,
     device_class = None,
     native_unit_of_measurement = PERCENTAGE,
     native_step = 1,
     native_min_value = 0,
     native_max_value = 100,
     getter = Get_grid_export_limit,
     mapper = (\<lambda>v. Inr v),
     setter = Some (\<lambda>val. Set_grid_export_limit val),
     filter' = (\<lambda>inv. type_name inv = ''DT'') \<rparr>"

definition battery_discharge_depth :: GoodweNumberEntityDescription where
  "battery_discharge_depth = \<lparr>
     key = ''battery_discharge_depth'',
     name = ''Depth of discharge (on-grid)'',
     icon = ''mdi:battery-arrow-down'',
     entity_category = CONFIG,
     device_class = None,
     native_unit_of_measurement = PERCENTAGE,
     native_step = 1,
     native_min_value = 0,
     native_max_value = 99,
     getter = Get_ongrid_battery_dod,
     mapper = (\<lambda>v. Inr v),
     setter = Some (\<lambda>val. Set_ongrid_battery_dod val),
     filter' = (\<lambda>inv. True) \<rparr>"

definition eco_mode_power :: GoodweNumberEntityDescription where
  "eco_mode_power = \<lparr>
     key = ''eco_mode_power'',
     name = ''Eco mode power'',
     icon = ''mdi:battery-charging-low'',
     entity_category = CONFIG,
     device_class = None,
     native_unit_of_measurement = PERCENTAGE,
     native_step = 1,
     native_min_value = 0,
     native_max_value = 100,
     getter = Read_setting ''eco_mode_1'',
     mapper = (\<lambda>v. if truthy v
                    then (case py_getattr v ''power'' of
                            Inl e \<Rightarrow> Inl e
                          | Inr p \<Rightarrow> py_abs p)
                    else Inr (PyInt 0)),
     setter = None,
     filter' = (\<lambda>inv. True) \<rparr>"

definition eco_mode_soc :: GoodweNumberEntityDescription where
  "eco_mode_soc = \<lparr>
     key = ''eco_mode_soc'',
     name = ''Eco mode SoC'',
     icon = ''mdi:battery-charging-low'',
     entity_category = CONFIG,
     device_class = None,
     native_unit_of_measurement = PERCENTAGE,
     native_step = 1,
     native_min_value = 0,
     native_max_value = 100,
     getter = Read_setting ''eco_mode_1'',
     mapper = (\<lambda>v. if truthy v then py_getattr v ''soc'' else Inr (PyInt 0)),
     setter = None,
     filter' = (\<lambda>inv. True) \<rparr>"

definition NUMBERS :: "GoodweNumberEntityDescription list" where
  "NUMBERS =
     [grid_export_limit_W, grid_export_limit_pct, battery_discharge_depth,
      eco_mode_power, eco_mode_soc]"

subsection \<open>The entity\<close>

text \<open>The host's \<^verbatim>\<open>DeviceInfo\<close> is a dictionary the module only passes on.\<close>

type_synonym device_info = "(string \<times> string) list"

record InverterNumberEntity =
  entity_description :: GoodweNumberEntityDescription
  attr_unique_id :: string
  attr_device_info :: device_info
  attr_native_value :: pyfloat
  attr_inverter :: Inverter

text \<open>
  \<^verbatim>\<open>InverterNumberEntity.__init__\<close>. The constant \<^verbatim>\<open>DOMAIN\<close> comes from the
  module \<^verbatim>\<open>const\<close> and is a parameter here. The only step that can raise is
  \<^verbatim>\<open>float(current_value)\<close>.
\<close>

definition unique_id :: "string \<Rightarrow> string \<Rightarrow> string \<Rightarrow> string" where
  "unique_id DOMAIN k serial = DOMAIN @ ''-'' @ k @ ''-'' @ serial"

definition InverterNumberEntity_init ::
  "string \<Rightarrow> device_info \<Rightarrow> GoodweNumberEntityDescription \<Rightarrow> Inverter \<Rightarrow> pyval
     \<Rightarrow> exn + InverterNumberEntity" where
  "InverterNumberEntity_init DOMAIN info description inverter current_value =
     (case py_float current_value of
        Inl e \<Rightarrow> Inl e
      | Inr f \<Rightarrow> Inr \<lparr>
          entity_description = description,
          attr_unique_id = unique_id DOMAIN (key description) (serial_number inverter),
          attr_device_info = info,
          attr_native_value = f,
          attr_inverter = inverter \<rparr>)"

text \<open>
  \<^verbatim>\<open>async_write_ha_state\<close>: the host reads the entity's state and publishes it.
\<close>

definition async_write_ha_state :: "InverterNumberEntity \<Rightarrow> event list \<Rightarrow> event list" where
  "async_write_ha_state self tr = tr @ [StateWritten (attr_unique_id self) (attr_native_value self)]"

text \<open>
  \<^verbatim>\<open>InverterNumberEntity.async_set_native_value\<close>. The result is the exception
  raised or \<open>Inr ()\<close>, the entity after the call, and the trace after the call. The
  argument \<^verbatim>\<open>int(value)\<close> is evaluated before the setter is called.
\<close>

definition async_set_native_value ::
  "InverterNumberEntity \<Rightarrow> pyfloat \<Rightarrow> event list
     \<Rightarrow> (exn + unit) \<times> InverterNumberEntity \<times> event list" where
  "async_set_native_value self v tr =
     (let store = (\<lambda>tr1.
            let self' = self\<lparr>attr_native_value := v\<rparr>
            in (Inr (), self', async_write_ha_state self' tr1))
      in case setter (entity_description self) of
           None \<Rightarrow> store tr
         | Some set_fn \<Rightarrow>
             (case py_int v of
                Inl e \<Rightarrow> (Inl e, self, tr)
              | Inr n \<Rightarrow>
                  (case await_call (attr_inverter self) (set_fn n) tr of
                     (Inl e, tr1) \<Rightarrow> (Inl e, self, tr1)
                   | (Inr u, tr1) \<Rightarrow> store tr1)))"

subsection \<open>The setup routine\<close>

text \<open>\<^verbatim>\<open>description.mapper(await description.getter(inverter))\<close>.\<close>

definition read_current_value ::
  "GoodweNumberEntityDescription \<Rightarrow> Inverter \<Rightarrow> event list \<Rightarrow> (exn + pyval) \<times> event list" where
  "read_current_value description inverter tr =
     (case await_call inverter (getter description) tr of
        (Inl e, tr1) \<Rightarrow> (Inl e, tr1)
      | (Inr raw, tr1) \<Rightarrow> (mapper description raw, tr1))"

text \<open>The clause \<^verbatim>\<open>except (InverterError, ValueError)\<close>.\<close>

definition caught :: "exn \<Rightarrow> bool" where
  "caught e = (e = InverterError \<or> e = ValueError)"

text \<open>
  The body of the \<^verbatim>\<open>for\<close> loop over the descriptors that passed the filter, with
  the list \<^verbatim>\<open>entities\<close> built so far. An exception that is not caught leaves the
  loop and the routine; the constructor call stands outside the \<^verbatim>\<open>try\<close>, so what it
  raises is not caught either. The debug log line of the handler has no effect on the
  result and is left out.
\<close>

fun setup_loop ::
  "string \<Rightarrow> device_info \<Rightarrow> Inverter \<Rightarrow> GoodweNumberEntityDescription list
     \<Rightarrow> InverterNumberEntity list \<Rightarrow> event list
     \<Rightarrow> (exn + InverterNumberEntity list) \<times> event list" where
  "setup_loop DOMAIN info inverter [] entities tr = (Inr entities, tr)"
| "setup_loop DOMAIN info inverter (description # rest) entities tr =
     (case read_current_value description inverter tr of
        (Inl e, tr1) \<Rightarrow>
          if caught e then setup_loop DOMAIN info inverter rest entities tr1
          else (Inl e, tr1)
      | (Inr current_value, tr1) \<Rightarrow>
          (case InverterNumberEntity_init DOMAIN info description inverter current_value of
             Inl e \<Rightarrow> (Inl e, tr1)
           | Inr entity \<Rightarrow> setup_loop DOMAIN info inverter rest (entities @ [entity]) tr1))"

text \<open>
  \<^verbatim>\<open>async_setup_entry\<close>, given the inverter and the device info stored for the
  config entry in \<^verbatim>\<open>hass.data\<close>. \<open>Inr entities\<close> is the one call
  \<^verbatim>\<open>async_add_entities(entities)\<close>; \<open>Inl e\<close> is the exception that left the
  routine, nothing registered. The builtin \<^verbatim>\<open>filter\<close> is lazy, but the descriptor
  filters only read the class name of the inverter, so filtering first gives the same run.
\<close>

definition async_setup_entry ::
  "string \<Rightarrow> Inverter \<Rightarrow> device_info \<Rightarrow> event list
     \<Rightarrow> (exn + InverterNumberEntity list) \<times> event list" where
  "async_setup_entry DOMAIN inverter info tr =
     setup_loop DOMAIN info inverter (filter (\<lambda>dsc. filter' dsc inverter) NUMBERS) [] tr"

subsection \<open>Observations used to state the properties\<close>

text \<open>
  The outcome of each descriptor's read, in the order and on the trace the loop performs
  them: the pair of the descriptor and what
  \<^verbatim>\<open>description.mapper(await description.getter(inverter))\<close> returned or raised.
\<close>

fun read_results ::
  "Inverter \<Rightarrow> GoodweNumberEntityDescription list \<Rightarrow> event list
     \<Rightarrow> (GoodweNumberEntityDescription \<times> (exn + pyval)) list" where
  "read_results inverter [] tr = []"
| "read_results inverter (description # rest) tr =
     (case read_current_value description inverter tr of
        (r, tr1) \<Rightarrow> (description, r) # read_results inverter rest tr1)"

definition isOK :: "'e + 'a \<Rightarrow> bool" where
  "isOK r = (case r of Inl e \<Rightarrow> False | Inr x \<Rightarrow> True)"

text \<open>
  An entity is the one the constructor builds for a descriptor from the value read for it.
\<close>

definition built_from ::
  "string \<Rightarrow> device_info \<Rightarrow> Inverter \<Rightarrow> InverterNumberEntity
     \<Rightarrow> GoodweNumberEntityDescription \<times> (exn + pyval) \<Rightarrow> bool" where
  "built_from DOMAIN info inverter entity dr =
     (case snd dr of
        Inl e \<Rightarrow> False
      | Inr current_value \<Rightarrow>
          InverterNumberEntity_init DOMAIN info (fst dr) inverter current_value = Inr entity)"

subsection \<open>Two example devices\<close>

text \<open>
  A hybrid inverter whose export limit cannot be read or written, and a DT inverter
  without battery settings and with no eco mode stored.
\<close>

definition dev_ET :: Inverter where
  "dev_ET = \<lparr>
     type_name = ''ET'',
     serial_number = ''95027EST'',
     respond = (\<lambda>history c. case c of
         Get_grid_export_limit \<Rightarrow> Inl InverterError
       | Set_grid_export_limit n \<Rightarrow> Inl InverterError
       | Get_ongrid_battery_dod \<Rightarrow> Inr (PyInt 80)
       | Set_ongrid_battery_dod n \<Rightarrow> Inr PyNone
       | Read_setting s \<Rightarrow> Inr (PyObj [(''power'', PyInt (- 450)), (''soc'', PyInt 20)])) \<rparr>"

definition dev_DT :: Inverter where
  "dev_DT = \<lparr>
     type_name = ''DT'',
     serial_number = ''9010KDTU'',
     respond = (\<lambda>history c. case c of
         Get_grid_export_limit \<Rightarrow> Inr (PyInt 50)
       | Set_grid_export_limit n \<Rightarrow> Inr PyNone
       | Get_ongrid_battery_dod \<Rightarrow> Inl InverterError
       | Set_ongrid_battery_dod n \<Rightarrow> Inl InverterError
       | Read_setting s \<Rightarrow> Inr PyNone) \<rparr>"

text \<open>An entity of a descriptor on a device, with a given cached value.\<close>

definition entity_of ::
  "GoodweNumberEntityDescription \<Rightarrow> Inverter \<Rightarrow> pyfloat \<Rightarrow> InverterNumberEntity" where
  "entity_of description inverter f = \<lparr>
     entity_description = description,
     attr_unique_id = unique_id ''goodwe'' (key description) (serial_number inverter),
     attr_device_info = [],
     attr_native_value = f,
     attr_inverter = inverter \<rparr>"

section \<open>Properties\<close>

subsection \<open>Auxiliary facts\<close>

lemmas descr_defs =
  grid_export_limit_W_def grid_export_limit_pct_def battery_discharge_depth_def
  eco_mode_power_def eco_mode_soc_def

lemmas example_defs = entity_of_def dev_ET_def dev_DT_def unique_id_def

text \<open>An integer of at most 53 bits is a double: \<^verbatim>\<open>float\<close> returns it unchanged.\<close>

lemma round_to_double_small: "\<bar>n\<bar> < 2 ^ 53 \<Longrightarrow> round_to_double n = n"
proof -
  assume a: "\<bar>n\<bar> < 2 ^ 53"
  have "bitlen \<bar>n\<bar> \<le> 53"
  proof (rule ccontr)
    assume "\<not> bitlen \<bar>n\<bar> \<le> 53"
    then have b: "54 \<le> bitlen \<bar>n\<bar>" by simp
    then have pos: "0 < \<bar>n\<bar>"
      using bitlen_eq_zero_iff [of "\<bar>n\<bar>"] by (cases "0 < \<bar>n\<bar>") auto
    from bitlen_bounds [OF pos] have "2 ^ nat (bitlen \<bar>n\<bar> - 1) \<le> \<bar>n\<bar>" by simp
    moreover have "(2::int) ^ 53 \<le> 2 ^ nat (bitlen \<bar>n\<bar> - 1)"
      using b by (intro power_increasing) auto
    ultimately show False using a by linarith
  qed
  then have "nat (bitlen \<bar>n\<bar> - 53) = 0" by simp
  then show ?thesis
    by (simp add: round_to_double_def Let_def mult_sgn_abs)
qed

lemma py_float_small: "\<bar>n\<bar> < 2 ^ 53 \<Longrightarrow> py_float (PyInt n) = Inr (Finite (of_int n))"
proof -
  assume a: "\<bar>n\<bar> < 2 ^ 53"
  have "(2::int) ^ 53 \<le> 2 ^ 1024" by (intro power_increasing) auto
  with a have "\<bar>n\<bar> < 2 ^ 1024" by linarith
  with a show ?thesis by (simp add: round_to_double_small)
qed

lemma init_entity_small:
  "\<bar>n\<bar> < 2 ^ 53 \<Longrightarrow>
     InverterNumberEntity_init ''goodwe'' [] d inverter (PyInt n) = Inr (entity_of d inverter (Finite (of_int n)))"
  by (simp add: InverterNumberEntity_init_def entity_of_def py_float_small del: py_float.simps)

lemma calls_of_append: "calls_of (xs @ ys) = calls_of xs @ calls_of ys"
  by (induction xs rule: calls_of.induct) simp_all

lemma isOK_iff: "isOK r \<longleftrightarrow> (\<exists>v. r = Inr v)"
  by (cases r) (simp_all add: isOK_def)

text \<open>The four runs of a write, one per path through the method.\<close>

lemma async_set_native_value_unfold:
  "async_set_native_value self v tr =
     (case setter (entity_description self) of
        None \<Rightarrow>
          (Inr (), self\<lparr>attr_native_value := v\<rparr>, tr @ [StateWritten (attr_unique_id self) v])
      | Some set_fn \<Rightarrow>
          (case py_int v of
             Inl e \<Rightarrow> (Inl e, self, tr)
           | Inr n \<Rightarrow>
               (case respond (attr_inverter self) (calls_of tr) (set_fn n) of
                  Inl e \<Rightarrow> (Inl e, self, tr @ [Called (set_fn n)])
                | Inr u \<Rightarrow> (Inr (), self\<lparr>attr_native_value := v\<rparr>,
                      tr @ [Called (set_fn n), StateWritten (attr_unique_id self) v]))))"
  by (simp add: async_set_native_value_def async_write_ha_state_def await_call_def Let_def
      split: option.splits sum.splits)

text \<open>The loop reads every descriptor it is given, and only those.\<close>

lemma map_fst_read_results: "map fst (read_results inverter ds tr) = ds"
  by (induction ds arbitrary: tr) (simp_all split: prod.splits)

text \<open>
  A loop that ends normally has appended, in order, one fully constructed entity for each
  descriptor whose read succeeded, and nothing else.
\<close>

lemma setup_loop_Inr:
  "setup_loop D info inverter ds es tr = (Inr es', tr') \<Longrightarrow>
     \<exists>new. es' = es @ new \<and>
       list_all2 (built_from D info inverter) new
         (filter (\<lambda>dr. isOK (snd dr)) (read_results inverter ds tr))"
proof (induction ds arbitrary: es tr)
  case Nil
  then show ?case by simp
next
  case (Cons d ds)
  obtain r tr1 where rd: "read_current_value d inverter tr = (r, tr1)"
    by (cases "read_current_value d inverter tr")
  show ?case
  proof (cases r)
    case (Inl e)
    with Cons.prems rd have rest: "setup_loop D info inverter ds es tr1 = (Inr es', tr')"
      by (auto split: if_splits)
    from Cons.IH [OF rest] show ?thesis
      using rd Inl by (simp add: isOK_def)
  next
    case (Inr cv)
    with Cons.prems rd obtain ent where
      ent: "InverterNumberEntity_init D info d inverter cv = Inr ent" and
      rest: "setup_loop D info inverter ds (es @ [ent]) tr1 = (Inr es', tr')"
      by (auto split: sum.splits)
    from Cons.IH [OF rest] obtain new where
      n: "es' = (es @ [ent]) @ new" and
      a: "list_all2 (built_from D info inverter) new
            (filter (\<lambda>dr. isOK (snd dr)) (read_results inverter ds tr1))"
      by blast
    have "es' = es @ (ent # new)" using n by simp
    moreover have "list_all2 (built_from D info inverter) (ent # new)
        (filter (\<lambda>dr. isOK (snd dr)) (read_results inverter (d # ds) tr))"
      using a rd Inr ent by (simp add: isOK_def built_from_def)
    ultimately show ?thesis by blast
  qed
qed


lemma built_from_fields:
  "built_from D info inverter e dr \<Longrightarrow>
     entity_description e = fst dr \<and>
     attr_unique_id e = unique_id D (key (fst dr)) (serial_number inverter)"
  by (auto simp: built_from_def InverterNumberEntity_init_def split: sum.splits)

lemma built_from_descriptions:
  "list_all2 (built_from D info inverter) es drs \<Longrightarrow> map entity_description es = map fst drs"
  by (induction es drs rule: list_all2_induct) (simp_all add: built_from_fields)

lemma async_setup_entry_Inr:
  assumes "async_setup_entry D inverter info tr = (Inr es, tr')"
  shows "list_all2 (built_from D info inverter) es
           (filter (\<lambda>dr. isOK (snd dr))
              (read_results inverter (filter (\<lambda>dsc. filter' dsc inverter) NUMBERS) tr))"
  using setup_loop_Inr [OF assms [unfolded async_setup_entry_def]] by simp

lemma unique_id_inj: "unique_id D k1 s = unique_id D k2 s \<longleftrightarrow> k1 = k2"
  by (simp add: unique_id_def)

lemma candidate_keys_distinct:
  "distinct (map key (filter (\<lambda>dsc. filter' dsc inverter) NUMBERS))"
  by (simp add: NUMBERS_def descr_defs)

text \<open>The setup of the example DT inverter, step by step.\<close>

lemma candidates_DT:
  "filter (\<lambda>dsc. filter' dsc dev_DT) NUMBERS =
     [grid_export_limit_pct, battery_discharge_depth, eco_mode_power, eco_mode_soc]"
  by (simp add: NUMBERS_def dev_DT_def descr_defs)

lemma reads_DT:
  "read_current_value grid_export_limit_pct dev_DT tr =
     (Inr (PyInt 50), tr @ [Called Get_grid_export_limit])"
  "read_current_value battery_discharge_depth dev_DT tr =
     (Inl InverterError, tr @ [Called Get_ongrid_battery_dod])"
  "read_current_value eco_mode_power dev_DT tr =
     (Inr (PyInt 0), tr @ [Called (Read_setting ''eco_mode_1'')])"
  "read_current_value eco_mode_soc dev_DT tr =
     (Inr (PyInt 0), tr @ [Called (Read_setting ''eco_mode_1'')])"
  by (simp_all add: read_current_value_def await_call_def dev_DT_def descr_defs)

lemma setup_DT:
  "async_setup_entry ''goodwe'' dev_DT [] [] =
     (Inr [entity_of grid_export_limit_pct dev_DT (Finite 50),
           entity_of eco_mode_power dev_DT (Finite 0),
           entity_of eco_mode_soc dev_DT (Finite 0)],
      [Called Get_grid_export_limit, Called Get_ongrid_battery_dod,
       Called (Read_setting ''eco_mode_1''), Called (Read_setting ''eco_mode_1'')])"
  by (simp add: async_setup_entry_def candidates_DT reads_DT init_entity_small caught_def)

subsection \<open>The descriptor table\<close>

text \<open>
  C7: on a structured eco-mode value with \<open>power = -450\<close> and \<open>soc = 20\<close> the mapper
  of \<open>eco_mode_power\<close> gives 450 and the mapper of \<open>eco_mode_soc\<close> gives 20; on an
  empty or absent (falsy) value both give 0.
\<close>

theorem eco_mode_mappers:
  "(map_of attrs ''power'' = Some (PyInt (- 450)) \<and> map_of attrs ''soc'' = Some (PyInt 20) \<longrightarrow>
      mapper (NUMBERS ! 3) (PyObj attrs) = Inr (PyInt 450) \<and>
      mapper (NUMBERS ! 4) (PyObj attrs) = Inr (PyInt 20)) \<and>
   (\<not> truthy v \<longrightarrow>
      mapper (NUMBERS ! 3) v = Inr (PyInt 0) \<and> mapper (NUMBERS ! 4) v = Inr (PyInt 0)) \<and>
   key (NUMBERS ! 3) = ''eco_mode_power'' \<and> key (NUMBERS ! 4) = ''eco_mode_soc''"
  by (simp add: NUMBERS_def eco_mode_power_def eco_mode_soc_def)

theorem eco_mode_mappers_witness:
  "mapper (NUMBERS ! 3) (PyObj [(''power'', PyInt (- 450)), (''soc'', PyInt 20)]) = Inr (PyInt 450) \<and>
   mapper (NUMBERS ! 4) (PyObj [(''power'', PyInt (- 450)), (''soc'', PyInt 20)]) = Inr (PyInt 20) \<and>
   mapper (NUMBERS ! 3) PyNone = Inr (PyInt 0) \<and> mapper (NUMBERS ! 4) PyNone = Inr (PyInt 0)"
  using eco_mode_mappers [of "[(''power'', PyInt (- 450)), (''soc'', PyInt 20)]" PyNone]
  by simp

text \<open>
  C8: for a device of class \<open>DT\<close> the filters select, among the descriptors with key
  \<open>grid_export_limit\<close>, the percentage one (0 to 100, step 1) and not the watt one
  (0 to 10000, step 100); for a device of any other class it is the other way round.
\<close>

theorem grid_export_limit_by_model:
  "map (\<lambda>d. (native_unit_of_measurement d, native_min_value d, native_max_value d, native_step d))
       (filter (\<lambda>d. key d = ''grid_export_limit'' \<and> filter' d inverter) NUMBERS) =
     (if type_name inverter = ''DT'' then [(PERCENTAGE, 0, 100, 1)] else [(WATT, 0, 10000, 100)])"
  by (simp add: NUMBERS_def descr_defs)

theorem grid_export_limit_by_model_witness:
  "map (\<lambda>d. (native_unit_of_measurement d, native_min_value d, native_max_value d, native_step d))
       (filter (\<lambda>d. key d = ''grid_export_limit'' \<and> filter' d dev_DT) NUMBERS) =
     [(PERCENTAGE, 0, 100, 1)] \<and>
   map (\<lambda>d. (native_unit_of_measurement d, native_min_value d, native_max_value d, native_step d))
       (filter (\<lambda>d. key d = ''grid_export_limit'' \<and> filter' d dev_ET) NUMBERS) =
     [(WATT, 0, 10000, 100)]"
  using grid_export_limit_by_model [of dev_DT] grid_export_limit_by_model [of dev_ET]
  by (simp add: dev_DT_def dev_ET_def)

subsection \<open>The setup routine\<close>

text \<open>
  C4: when the setup routine completes, the registered entities are, in order, exactly the
  entities constructed for the descriptors of \<open>NUMBERS\<close> whose filter accepted the
  device and whose read (getter, then mapper) succeeded: a descriptor has an entity if and
  only if both hold, every registered entity is the complete result of the constructor, and
  no entity belongs to a descriptor whose filter rejects the device.
\<close>

theorem setup_registers_exactly_successful_reads:
  assumes "async_setup_entry D inverter info tr = (Inr es, tr')"
  shows "list_all2 (built_from D info inverter) es
           (filter (\<lambda>dr. isOK (snd dr))
              (read_results inverter (filter (\<lambda>dsc. filter' dsc inverter) NUMBERS) tr)) \<and>
         (\<forall>d. d \<in> entity_description ` set es \<longleftrightarrow>
            d \<in> set NUMBERS \<and> filter' d inverter \<and>
            (\<exists>v. (d, Inr v) \<in>
               set (read_results inverter (filter (\<lambda>dsc. filter' dsc inverter) NUMBERS) tr))) \<and>
         (\<forall>e \<in> set es. filter' (entity_description e) inverter)"
proof -
  let ?cands = "filter (\<lambda>dsc. filter' dsc inverter) NUMBERS"
  let ?rr = "read_results inverter ?cands tr"
  have all2: "list_all2 (built_from D info inverter) es (filter (\<lambda>dr. isOK (snd dr)) ?rr)"
    by (rule async_setup_entry_Inr [OF assms])
  have descs: "map entity_description es = map fst (filter (\<lambda>dr. isOK (snd dr)) ?rr)"
    by (rule built_from_descriptions [OF all2])
  have in_cands: "d \<in> set ?cands" if "(d, r) \<in> set ?rr" for d r
  proof -
    from that have "d \<in> set (map fst ?rr)" by force
    then show ?thesis by (simp only: map_fst_read_results)
  qed
  have img: "entity_description ` set es = fst ` {dr \<in> set ?rr. isOK (snd dr)}"
    using arg_cong [OF descs, of set] by simp
  have iff: "d \<in> entity_description ` set es \<longleftrightarrow>
       d \<in> set NUMBERS \<and> filter' d inverter \<and> (\<exists>v. (d, Inr v) \<in> set ?rr)" for d
  proof
    assume "d \<in> entity_description ` set es"
    then obtain r where m: "(d, r) \<in> set ?rr" and ok: "isOK r"
      unfolding img by auto
    from ok obtain v where "r = Inr v" by (auto simp: isOK_iff)
    with m in_cands [OF m]
    show "d \<in> set NUMBERS \<and> filter' d inverter \<and> (\<exists>v. (d, Inr v) \<in> set ?rr)"
      by auto
  next
    assume "d \<in> set NUMBERS \<and> filter' d inverter \<and> (\<exists>v. (d, Inr v) \<in> set ?rr)"
    then obtain v where "(d, Inr v) \<in> set ?rr" by blast
    then have "(d, Inr v) \<in> {dr \<in> set ?rr. isOK (snd dr)}" by (simp add: isOK_def)
    then show "d \<in> entity_description ` set es"
      unfolding img by force
  qed
  have "filter' (entity_description e) inverter" if "e \<in> set es" for e
    using iff [of "entity_description e"] that by blast
  with all2 iff show ?thesis by blast
qed

theorem setup_registers_exactly_successful_reads_witness:
  "async_setup_entry ''goodwe'' dev_DT [] [] =
     (Inr [entity_of grid_export_limit_pct dev_DT (Finite 50),
           entity_of eco_mode_power dev_DT (Finite 0),
           entity_of eco_mode_soc dev_DT (Finite 0)],
      [Called Get_grid_export_limit, Called Get_ongrid_battery_dod,
       Called (Read_setting ''eco_mode_1''), Called (Read_setting ''eco_mode_1'')]) \<and>
   read_results dev_DT (filter (\<lambda>dsc. filter' dsc dev_DT) NUMBERS) [] =
     [(grid_export_limit_pct, Inr (PyInt 50)), (battery_discharge_depth, Inl InverterError),
      (eco_mode_power, Inr (PyInt 0)), (eco_mode_soc, Inr (PyInt 0))] \<and>
   list_all2 (built_from ''goodwe'' [] dev_DT)
     [entity_of grid_export_limit_pct dev_DT (Finite 50),
      entity_of eco_mode_power dev_DT (Finite 0),
      entity_of eco_mode_soc dev_DT (Finite 0)]
     [(grid_export_limit_pct, Inr (PyInt 50)), (eco_mode_power, Inr (PyInt 0)),
      (eco_mode_soc, Inr (PyInt 0))]"
proof -
  have rr: "read_results dev_DT (filter (\<lambda>dsc. filter' dsc dev_DT) NUMBERS) [] =
     [(grid_export_limit_pct, Inr (PyInt 50)), (battery_discharge_depth, Inl InverterError),
      (eco_mode_power, Inr (PyInt 0)), (eco_mode_soc, Inr (PyInt 0))]"
    by (simp add: candidates_DT reads_DT)
  from setup_registers_exactly_successful_reads [OF setup_DT] setup_DT rr show ?thesis
    by (simp add: isOK_def)
qed



text \<open>
  C9: the unique identifier of every registered entity is the domain tag, the key of its
  descriptor and the serial number of the device, joined by \<open>-\<close>. The first two entries
  of \<open>NUMBERS\<close> are the only ones with the same key and their filters are complementary
  (class name different from, or equal to, \<open>DT\<close>), so the entities registered by one
  setup have pairwise distinct keys and pairwise distinct unique identifiers.
\<close>

theorem unique_ids_distinct:
  assumes "async_setup_entry D inverter info tr = (Inr es, tr')"
  shows "(\<forall>e \<in> set es. attr_unique_id e =
            D @ ''-'' @ key (entity_description e) @ ''-'' @ serial_number inverter) \<and>
         key (NUMBERS ! 0) = key (NUMBERS ! 1) \<and> distinct (map key (tl NUMBERS)) \<and>
         (filter' (NUMBERS ! 0) inverter \<longleftrightarrow> type_name inverter \<noteq> ''DT'') \<and>
         (filter' (NUMBERS ! 1) inverter \<longleftrightarrow> type_name inverter = ''DT'') \<and>
         distinct (map (\<lambda>e. key (entity_description e)) es) \<and>
         distinct (map attr_unique_id es)"
proof -
  let ?cands = "filter (\<lambda>dsc. filter' dsc inverter) NUMBERS"
  let ?ok = "filter (\<lambda>dr. isOK (snd dr)) (read_results inverter ?cands tr)"
  have all2: "list_all2 (built_from D info inverter) es ?ok"
    by (rule async_setup_entry_Inr [OF assms])
  have ids: "attr_unique_id e = unique_id D (key (entity_description e)) (serial_number inverter)"
    if "e \<in> set es" for e
  proof -
    from that obtain i where i: "i < length es" "es ! i = e"
      by (auto simp: in_set_conv_nth)
    from list_all2_nthD [OF all2 i(1)] i(2) have "built_from D info inverter e (?ok ! i)"
      by simp
    then show ?thesis by (simp add: built_from_fields)
  qed
  have "map (\<lambda>e. key (entity_description e)) es = map key (map entity_description es)"
    by simp
  also have "\<dots> = map key (map fst ?ok)"
    by (simp only: built_from_descriptions [OF all2])
  finally have keys: "map (\<lambda>e. key (entity_description e)) es = map (key \<circ> fst) ?ok"
    by simp
  have "distinct (map (key \<circ> fst) (read_results inverter ?cands tr))"
    using candidate_keys_distinct [of inverter]
    by (simp only: map_map [symmetric] map_fst_read_results)
  then have dk: "distinct (map (\<lambda>e. key (entity_description e)) es)"
    unfolding keys by (rule distinct_map_filter)
  have meq: "map attr_unique_id es =
      map (\<lambda>k. unique_id D k (serial_number inverter)) (map (\<lambda>e. key (entity_description e)) es)"
    using ids by simp
  have dd: "distinct (map (\<lambda>k. unique_id D k (serial_number inverter))
      (map (\<lambda>e. key (entity_description e)) es))"
    using dk by (simp only: distinct_map) (simp add: inj_on_def unique_id_inj)
  have du: "distinct (map attr_unique_id es)"
    unfolding meq by (rule dd)
  have tbl: "key (NUMBERS ! 0) = key (NUMBERS ! 1) \<and> distinct (map key (tl NUMBERS)) \<and>
         (filter' (NUMBERS ! 0) inverter \<longleftrightarrow> type_name inverter \<noteq> ''DT'') \<and>
         (filter' (NUMBERS ! 1) inverter \<longleftrightarrow> type_name inverter = ''DT'')"
    by (simp add: NUMBERS_def descr_defs)
  from ids dk du tbl show ?thesis
    by (simp add: unique_id_def)
qed

theorem unique_ids_distinct_witness:
  "fst (async_setup_entry ''goodwe'' dev_DT [] []) =
     Inr [entity_of grid_export_limit_pct dev_DT (Finite 50),
          entity_of eco_mode_power dev_DT (Finite 0),
          entity_of eco_mode_soc dev_DT (Finite 0)] \<and>
   map attr_unique_id
     [entity_of grid_export_limit_pct dev_DT (Finite 50),
      entity_of eco_mode_power dev_DT (Finite 0),
      entity_of eco_mode_soc dev_DT (Finite 0)] =
     [''goodwe-grid_export_limit-9010KDTU'', ''goodwe-eco_mode_power-9010KDTU'',
      ''goodwe-eco_mode_soc-9010KDTU''] \<and>
   distinct (map attr_unique_id
     [entity_of grid_export_limit_pct dev_DT (Finite 50),
      entity_of eco_mode_power dev_DT (Finite 0),
      entity_of eco_mode_soc dev_DT (Finite 0)])"
proof -
  have ids: "map attr_unique_id
     [entity_of grid_export_limit_pct dev_DT (Finite 50),
      entity_of eco_mode_power dev_DT (Finite 0),
      entity_of eco_mode_soc dev_DT (Finite 0)] =
     [''goodwe-grid_export_limit-9010KDTU'', ''goodwe-eco_mode_power-9010KDTU'',
      ''goodwe-eco_mode_soc-9010KDTU'']"
    by (simp add: entity_of_def unique_id_def dev_DT_def descr_defs)
  from unique_ids_distinct [OF setup_DT] setup_DT ids show ?thesis
    by simp
qed

subsection \<open>Writing a value\<close>




text \<open>
  C2: for an entity whose descriptor has a setter, when the setter call raises \<open>e\<close>, the
  write raises the same \<open>e\<close> to its caller and the entity, its cached value included, is
  as it was before the write.
\<close>

theorem write_setter_failure_atomic:
  assumes "setter (entity_description self) = Some set_fn"
    and "py_int v = Inr n"
    and "respond (attr_inverter self) (calls_of tr) (set_fn n) = Inl e"
  shows "async_set_native_value self v tr = (Inl e, self, tr @ [Called (set_fn n)])"
  using assms by (simp add: async_set_native_value_unfold)

theorem write_setter_failure_atomic_witness:
  "setter (entity_description (entity_of grid_export_limit_W dev_ET (Finite 4000))) =
     Some Set_grid_export_limit \<and>
   py_int (Finite 5000) = Inr 5000 \<and>
   respond dev_ET [] (Set_grid_export_limit 5000) = Inl InverterError \<and>
   fst (async_set_native_value (entity_of grid_export_limit_W dev_ET (Finite 4000)) (Finite 5000) []) =
     Inl InverterError \<and>
   attr_native_value (fst (snd (async_set_native_value
     (entity_of grid_export_limit_W dev_ET (Finite 4000)) (Finite 5000) []))) = Finite 4000"
proof -
  let ?e = "entity_of grid_export_limit_W dev_ET (Finite 4000)"
  have s: "setter (entity_description ?e) = Some Set_grid_export_limit"
    by (simp add: entity_of_def grid_export_limit_W_def)
  have i: "py_int (Finite 5000) = Inr 5000"
    by simp
  have f: "respond (attr_inverter ?e) (calls_of []) (Set_grid_export_limit 5000) = Inl InverterError"
    by (simp add: example_defs)
  have a: "attr_inverter ?e = dev_ET" "attr_native_value ?e = Finite 4000"
    by (simp_all add: entity_of_def)
  from write_setter_failure_atomic [OF s i f] s i f a show ?thesis
    by simp
qed

text \<open>
  C3: a write of \<open>v\<close> updates the cached value to \<open>v\<close> and notifies the host in every
  case in which the write does not raise, whether or not the descriptor has a setter; it
  does not raise exactly when there is no setter or \<open>int(v)\<close> and the setter call both
  succeed. A write that raises leaves the entity unchanged and notifies nobody.
\<close>

theorem write_updates_unless_raised:
  assumes "async_set_native_value self v tr = (res, self', tr')"
  shows "(res = Inr () \<longrightarrow>
            attr_native_value self' = v \<and>
            (\<exists>pre. tr' = pre @ [StateWritten (attr_unique_id self) v])) \<and>
         (res = Inr () \<longleftrightarrow>
            setter (entity_description self) = None \<or>
            (\<exists>set_fn n u. setter (entity_description self) = Some set_fn \<and> py_int v = Inr n \<and>
                respond (attr_inverter self) (calls_of tr) (set_fn n) = Inr u)) \<and>
         (res \<noteq> Inr () \<longrightarrow>
            self' = self \<and> (\<forall>u x. StateWritten u x \<notin> set (drop (length tr) tr')))"
  using assms
  by (auto simp: async_set_native_value_unfold split: option.splits sum.splits)

theorem write_updates_unless_raised_witness:
  "fst (async_set_native_value
      (entity_of battery_discharge_depth dev_ET (Finite 80)) (Finite 75.5) []) = Inr () \<and>
   attr_native_value (fst (snd (async_set_native_value
      (entity_of battery_discharge_depth dev_ET (Finite 80)) (Finite 75.5) []))) = Finite 75.5 \<and>
   fst (async_set_native_value
      (entity_of grid_export_limit_W dev_ET (Finite 4000)) (Finite 5000) []) \<noteq> Inr () \<and>
   fst (snd (async_set_native_value
      (entity_of grid_export_limit_W dev_ET (Finite 4000)) (Finite 5000) [])) =
      entity_of grid_export_limit_W dev_ET (Finite 4000)"
proof -
  let ?a = "async_set_native_value
      (entity_of battery_discharge_depth dev_ET (Finite 80)) (Finite 75.5) []"
  let ?b = "async_set_native_value
      (entity_of grid_export_limit_W dev_ET (Finite 4000)) (Finite 5000) []"
  have a: "?a = (fst ?a, fst (snd ?a), snd (snd ?a))"
    and b: "?b = (fst ?b, fst (snd ?b), snd (snd ?b))"
    by simp_all
  have ra: "fst ?a = Inr ()"
    by (simp add: async_set_native_value_unfold example_defs battery_discharge_depth_def)
  have rb: "fst ?b \<noteq> Inr ()"
    by (simp add: async_set_native_value_unfold example_defs grid_export_limit_W_def)
  from write_updates_unless_raised [OF a] write_updates_unless_raised [OF b] ra rb
  show ?thesis by blast
qed

text \<open>
  The update is not unconditional: when the setter call raises, the cached value keeps its
  old value 4000 instead of the requested 5000, and the only event of the write is the
  device call, with no state write.
\<close>

theorem write_update_not_unconditional_counterexample:
  "fst (async_set_native_value
      (entity_of grid_export_limit_W dev_ET (Finite 4000)) (Finite 5000) []) = Inl InverterError \<and>
   attr_native_value (fst (snd (async_set_native_value
      (entity_of grid_export_limit_W dev_ET (Finite 4000)) (Finite 5000) []))) = Finite 4000 \<and>
   Finite 4000 \<noteq> Finite 5000 \<and>
   snd (snd (async_set_native_value
      (entity_of grid_export_limit_W dev_ET (Finite 4000)) (Finite 5000) [])) =
     [Called (Set_grid_export_limit 5000)]"
  by (simp add: async_set_native_value_unfold example_defs grid_export_limit_W_def)

text \<open>
  C6: for an entity whose descriptor has no setter, a write of any value \<open>v\<close> makes no
  device call (the calls in the trace are those made before), the cached value becomes
  \<open>v\<close>, and the host is notified of the state with value \<open>v\<close>.
\<close>

theorem write_without_setter_local:
  assumes "setter (entity_description self) = None"
  shows "async_set_native_value self v tr =
           (Inr (), self\<lparr>attr_native_value := v\<rparr>, tr @ [StateWritten (attr_unique_id self) v]) \<and>
         calls_of (snd (snd (async_set_native_value self v tr))) = calls_of tr \<and>
         attr_native_value (fst (snd (async_set_native_value self v tr))) = v"
  using assms by (simp add: async_set_native_value_unfold calls_of_append)

theorem write_without_setter_local_witness:
  "setter (entity_description (entity_of eco_mode_soc dev_ET (Finite 20))) = None \<and>
   calls_of (snd (snd (async_set_native_value
     (entity_of eco_mode_soc dev_ET (Finite 20)) (Finite 35) []))) = [] \<and>
   attr_native_value (fst (snd (async_set_native_value
     (entity_of eco_mode_soc dev_ET (Finite 20)) (Finite 35) []))) = Finite 35 \<and>
   snd (snd (async_set_native_value (entity_of eco_mode_soc dev_ET (Finite 20)) (Finite 35) [])) =
     [StateWritten ''goodwe-eco_mode_soc-95027EST'' (Finite 35)]"
proof -
  let ?e = "entity_of eco_mode_soc dev_ET (Finite 20)"
  have s: "setter (entity_description ?e) = None"
    by (simp add: entity_of_def eco_mode_soc_def)
  have u: "attr_unique_id ?e = ''goodwe-eco_mode_soc-95027EST''"
    by (simp add: example_defs eco_mode_soc_def)
  from write_without_setter_local [OF s, of "Finite 35" "[]"] s u show ?thesis
    by simp
qed

text \<open>
  C10: when the setter call of a write raises, the only event of the write is that call:
  no state write is issued. In every write, a state write, if there is one, is the last
  event, comes after the setter call when the descriptor has a setter, carries the
  requested value, which is then the cached value, and the write returns normally.
\<close>

theorem no_notification_when_setter_raises:
  assumes "async_set_native_value self v tr = (res, self', tr')"
  shows "\<exists>new. tr' = tr @ new \<and>
           (\<forall>set_fn n e. setter (entity_description self) = Some set_fn \<and> py_int v = Inr n \<and>
                respond (attr_inverter self) (calls_of tr) (set_fn n) = Inl e \<longrightarrow>
              res = Inl e \<and> new = [Called (set_fn n)]) \<and>
           (\<forall>u x. StateWritten u x \<in> set new \<longrightarrow>
              res = Inr () \<and> u = attr_unique_id self \<and> x = v \<and> attr_native_value self' = v \<and>
              (case setter (entity_description self) of
                 None \<Rightarrow> new = [StateWritten u x]
               | Some set_fn \<Rightarrow>
                   \<exists>n. py_int v = Inr n \<and> new = [Called (set_fn n), StateWritten u x]))"
  using assms
  by (auto simp: async_set_native_value_unfold split: option.splits sum.splits)

theorem no_notification_when_setter_raises_witness:
  "async_set_native_value (entity_of grid_export_limit_W dev_ET (Finite 4000)) (Finite 5000)
       [StateWritten ''goodwe-grid_export_limit-95027EST'' (Finite 4000)] =
     (Inl InverterError, entity_of grid_export_limit_W dev_ET (Finite 4000),
      [StateWritten ''goodwe-grid_export_limit-95027EST'' (Finite 4000),
       Called (Set_grid_export_limit 5000)]) \<and>
   (\<exists>new. [StateWritten ''goodwe-grid_export_limit-95027EST'' (Finite 4000),
            Called (Set_grid_export_limit 5000)] =
           [StateWritten ''goodwe-grid_export_limit-95027EST'' (Finite 4000)] @ new \<and>
          new = [Called (Set_grid_export_limit 5000)])"
proof -
  let ?e = "entity_of grid_export_limit_W dev_ET (Finite 4000)"
  let ?tr = "[StateWritten ''goodwe-grid_export_limit-95027EST'' (Finite 4000)]"
  have r: "async_set_native_value ?e (Finite 5000) ?tr =
      (Inl InverterError, ?e, ?tr @ [Called (Set_grid_export_limit 5000)])"
    by (simp add: async_set_native_value_unfold example_defs grid_export_limit_W_def)
  have s: "setter (entity_description ?e) = Some Set_grid_export_limit \<and>
      py_int (Finite 5000) = Inr 5000 \<and>
      respond (attr_inverter ?e) (calls_of ?tr) (Set_grid_export_limit 5000) = Inl InverterError"
    by (simp add: example_defs grid_export_limit_W_def)
  from no_notification_when_setter_raises [OF r] s r show ?thesis
    by auto
qed

end
